theory Spec2Isabelle
  imports Main "HOL-Library.AList" "HOL-Library.Char_ord" "HOL-Library.List_Lexorder"
begin

section \<open>Data model of the audit evaluation (application/demo1.py)\<close>

text \<open>
  The three input tables are pandas DataFrames; each is modelled as the list of its rows,
  in row order. Only the columns that the evaluation reads are kept: the column
  \<^verbatim>\<open>audit_date\<close> of the audit table is loaded but never read by any function below.
  Numeric columns are integer columns of dtype int64 (the sample data draws them with
  \<^verbatim>\<open>np.random.randint\<close>): a numeric field holds the integer value of such a cell,
  which lies between \<open>-2^63\<close> and \<open>2^63 - 1\<close>. Arithmetic on a numpy.int64 scalar
  wraps around at 64 bits; it is written out where the code computes with such a scalar.
  The tables of the database path are not declared in the repository; columns of a
  floating point type are not covered by this model.
\<close>

record audit_row =
  a_group :: string
  a_value :: int
  a_program_type :: string
  a_customer_id :: string

record condition_row =
  c_group :: string
  c_condition_min_value :: int
  c_condition_point :: int
  c_group_min_value :: int
  c_program_type :: string

record registration_row =
  r_program_type :: string
  r_qty :: int
  r_customer_id :: string

text \<open>A row of the inner join of audit and registration rows on
  \<^verbatim>\<open>['customer_id', 'program_type']\<close>.\<close>

record merged_row =
  m_group :: string
  m_value :: int
  m_program_type :: string
  m_customer_id :: string
  m_qty :: int

datatype status = PASS | FAIL

text \<open>
  The results are Python dictionaries. A key that only some branches set is an optional
  field. The keys \<^verbatim>\<open>message\<close> and \<^verbatim>\<open>score\<close> hold formatted display strings
  and are left out. A dictionary of results is an association list in insertion order;
  assigning to a key is \<^const>\<open>AList.update\<close>: an existing key keeps its place and gets the
  new value, a new key goes to the end.
\<close>

record program_result =
  pr_program_type :: string
  pass_status :: status
  reason :: string
  audit_value :: int
  required_value :: "int option"
  registration_qty :: "int option"
  condition_min_value :: "int option"
  deficit :: "int option"

record group_result =
  gr_group :: string
  group_status :: status
  gr_reason :: "string option"
  passed_programs :: "int option"
  required_programs :: "int option"
  program_results :: "(string \<times> program_result) list"

record customer_result =
  cr_customer_id :: string
  overall_status :: status
  cr_reason :: string
  group_results :: "(string \<times> group_result) list"

definition fake_picture :: string where
  "fake_picture = ''fake_picture''"

section \<open>Program evaluation\<close>

text \<open>The range of int64, and the value that an int64 operation stores for the exact
  result \<open>x\<close>: the result reduced modulo \<open>2^64\<close> into that range.\<close>

definition is_int64 :: "int \<Rightarrow> bool" where
  "is_int64 x \<longleftrightarrow> - (2 ^ 63) \<le> x \<and> x < 2 ^ 63"

definition wrap_int64 :: "int \<Rightarrow> int" where
  "wrap_int64 x = (x + 2 ^ 63) mod 2 ^ 64 - 2 ^ 63"

definition handle_fake_picture_program :: "int \<Rightarrow> program_result" where
  "handle_fake_picture_program audit_val =
     (if audit_val > 0 then
        \<lparr>pr_program_type = fake_picture, pass_status = FAIL,
         reason = ''FAKE_PICTURE_DETECTED'', audit_value = audit_val,
         required_value = None, registration_qty = None,
         condition_min_value = None, deficit = None\<rparr>
      else
        \<lparr>pr_program_type = fake_picture, pass_status = PASS,
         reason = ''NO_FAKE_PICTURE'', audit_value = audit_val,
         required_value = None, registration_qty = None,
         condition_min_value = None, deficit = None\<rparr>)"

text \<open>
  \<^verbatim>\<open>condition_min_value\<close> is read with \<^verbatim>\<open>.iloc[0][...]\<close> and is a numpy.int64
  scalar, so the product with the quantity and the difference to the audit value are int64
  operations. The comparison of the audit value (a Python integer) with the required value
  is exact. \<^verbatim>\<open>max(0, d)\<close> is \<open>d\<close> when \<open>d > 0\<close> and 0 otherwise.
\<close>

definition handle_normal_program ::
  "string \<Rightarrow> int \<Rightarrow> int \<Rightarrow> condition_row list \<Rightarrow> program_result" where
  "handle_normal_program program_type audit_val reg_qty group_conditions =
     (case filter (\<lambda>c. c_program_type c = program_type) group_conditions of
        [] \<Rightarrow>
          \<lparr>pr_program_type = program_type, pass_status = FAIL,
           reason = ''NO_CONDITION'', audit_value = audit_val,
           required_value = Some 0, registration_qty = None,
           condition_min_value = None, deficit = None\<rparr>
      | c # _ \<Rightarrow>
          (let cond_min = c_condition_min_value c;
               required = wrap_int64 (cond_min * reg_qty)
           in \<lparr>pr_program_type = program_type,
               pass_status = (if audit_val \<ge> required then PASS else FAIL),
               reason = ''NORMAL_PROCESSING'', audit_value = audit_val,
               required_value = Some required, registration_qty = Some reg_qty,
               condition_min_value = Some cond_min,
               deficit = Some (max 0 (wrap_int64 (required - audit_val)))\<rparr>))"

section \<open>Group evaluation\<close>

text \<open>The body of the loop over the rows of one group: the branch on the program type.\<close>

definition evaluate_row :: "merged_row \<Rightarrow> condition_row list \<Rightarrow> program_result" where
  "evaluate_row program_row group_conditions =
     (if m_program_type program_row = fake_picture
      then handle_fake_picture_program (m_value program_row)
      else handle_normal_program (m_program_type program_row) (m_value program_row)
             (m_qty program_row) group_conditions)"

text \<open>The loop itself, threading the dictionary \<^verbatim>\<open>program_results\<close> and the counter
  \<^verbatim>\<open>passed_programs\<close>.\<close>

fun process_rows ::
  "merged_row list \<Rightarrow> condition_row list \<Rightarrow> (string \<times> program_result) list \<times> int
     \<Rightarrow> (string \<times> program_result) list \<times> int" where
  "process_rows [] group_conditions acc = acc"
| "process_rows (program_row # rest) group_conditions (results, passed) =
     (let program_res = evaluate_row program_row group_conditions
      in process_rows rest group_conditions
           (AList.update (m_program_type program_row) program_res results,
            (if pass_status program_res = PASS then passed + 1 else passed)))"

definition process_single_group ::
  "string \<Rightarrow> merged_row list \<Rightarrow> condition_row list \<Rightarrow> group_result" where
  "process_single_group group_name group_data condition_data =
     (case filter (\<lambda>c. c_group c = group_name) condition_data of
        [] \<Rightarrow>
          \<lparr>gr_group = group_name, group_status = FAIL,
           gr_reason = Some ''NO_CONDITIONS'', passed_programs = None,
           required_programs = None, program_results = []\<rparr>
      | first_condition # more_conditions \<Rightarrow>
          (let group_conditions = first_condition # more_conditions;
               (results, passed) = process_rows group_data group_conditions ([], 0);
               group_min = c_group_min_value first_condition
           in \<lparr>gr_group = group_name,
               group_status = (if passed \<ge> group_min then PASS else FAIL),
               gr_reason = None, passed_programs = Some passed,
               required_programs = Some group_min, program_results = results\<rparr>))"

section \<open>Customer evaluation\<close>

fun determine_overall_status :: "(string \<times> group_result) list \<Rightarrow> status" where
  "determine_overall_status [] = PASS"
| "determine_overall_status ((group_name, group_res) # rest) =
     (if group_status group_res = FAIL then FAIL else determine_overall_status rest)"

text \<open>\<^verbatim>\<open>pd.merge(customer_audit, customer_registration, on=['customer_id',
  'program_type'], how='inner')\<close>: every audit row, in order, paired with every registration
  row of the same customer and program.\<close>

definition merge_inner :: "audit_row list \<Rightarrow> registration_row list \<Rightarrow> merged_row list" where
  "merge_inner customer_audit customer_registration =
     concat (map (\<lambda>a.
       map (\<lambda>r. \<lparr>m_group = a_group a, m_value = a_value a,
                  m_program_type = a_program_type a, m_customer_id = a_customer_id a,
                  m_qty = r_qty r\<rparr>)
         (filter (\<lambda>r. r_customer_id r = a_customer_id a \<and> r_program_type r = a_program_type a)
            customer_registration))
       customer_audit)"

text \<open>\<^verbatim>\<open>merged_data.groupby('group')\<close>: the group keys that occur in the frame, in
  sorted order, each with its rows in their original order. (For a categorical column
  pandas can also yield an empty group for a category that does not occur; such empty
  groups are not part of this model.)\<close>

definition groupby_group :: "merged_row list \<Rightarrow> (string \<times> merged_row list) list" where
  "groupby_group merged_data =
     map (\<lambda>g. (g, filter (\<lambda>m. m_group m = g) merged_data))
       (sort (remdups (map m_group merged_data)))"

fun process_groups ::
  "(string \<times> merged_row list) list \<Rightarrow> condition_row list \<Rightarrow> (string \<times> group_result) list
     \<Rightarrow> (string \<times> group_result) list" where
  "process_groups [] condition_data results = results"
| "process_groups ((group_name, group_data) # rest) condition_data results =
     process_groups rest condition_data
       (AList.update group_name (process_single_group group_name group_data condition_data)
          results)"

definition process_single_customer ::
  "string \<Rightarrow> audit_row list \<Rightarrow> condition_row list \<Rightarrow> registration_row list
     \<Rightarrow> customer_result" where
  "process_single_customer customer customer_audit condition_data registration_data =
     (let customer_registration = filter (\<lambda>r. r_customer_id r = customer) registration_data
      in if customer_registration = [] then
           \<lparr>cr_customer_id = customer, overall_status = FAIL,
            cr_reason = ''NO_REGISTRATION'', group_results = []\<rparr>
         else
           (let merged_data = merge_inner customer_audit customer_registration
            in if merged_data = [] then
                 \<lparr>cr_customer_id = customer, overall_status = FAIL,
                  cr_reason = ''NO_AUDIT_DATA'', group_results = []\<rparr>
               else
                 (let results = process_groups (groupby_group merged_data) condition_data []
                  in \<lparr>cr_customer_id = customer,
                      overall_status = determine_overall_status results,
                      cr_reason = ''PROCESSED'', group_results = results\<rparr>)))"

section \<open>Batch run\<close>

text \<open>\<^verbatim>\<open>audit_data.groupby('customer_id')\<close>: the customers that occur in the audit
  table, in sorted order, each with its audit rows.\<close>

definition groupby_customer :: "audit_row list \<Rightarrow> (string \<times> audit_row list) list" where
  "groupby_customer audit_data =
     map (\<lambda>c. (c, filter (\<lambda>a. a_customer_id a = c) audit_data))
       (sort (remdups (map a_customer_id audit_data)))"

fun process_customers ::
  "(string \<times> audit_row list) list \<Rightarrow> condition_row list \<Rightarrow> registration_row list
     \<Rightarrow> (string \<times> customer_result) list \<Rightarrow> (string \<times> customer_result) list" where
  "process_customers [] condition_data registration_data all_results = all_results"
| "process_customers ((customer, customer_audit) # rest) condition_data registration_data
     all_results =
     process_customers rest condition_data registration_data
       (AList.update customer
          (process_single_customer customer customer_audit condition_data registration_data)
          all_results)"

definition process_audit_for_all_customers ::
  "audit_row list \<Rightarrow> condition_row list \<Rightarrow> registration_row list
     \<Rightarrow> (string \<times> customer_result) list" where
  "process_audit_for_all_customers audit_data condition_data registration_data =
     process_customers (groupby_customer audit_data) condition_data registration_data []"

section \<open>Statistics computed when the results are saved\<close>

text \<open>The per-customer values that \<^verbatim>\<open>save_results_to_database\<close> derives from a
  customer's result before writing the row.\<close>

definition total_groups :: "customer_result \<Rightarrow> nat" where
  "total_groups result = length (group_results result)"

definition passed_groups :: "customer_result \<Rightarrow> nat" where
  "passed_groups result =
     length (filter (\<lambda>(g, gr). group_status gr = PASS) (group_results result))"

text \<open>The inner sum of \<^verbatim>\<open>passed_programs\<close> there: the number of entries of a group's
  \<^verbatim>\<open>program_results\<close> dictionary whose status is PASS.\<close>

definition passed_program_verdicts :: "(string \<times> program_result) list \<Rightarrow> int" where
  "passed_program_verdicts verdicts =
     int (length (filter (\<lambda>(p, pr). pass_status pr = PASS) verdicts))"

definition fake_picture_detected :: "customer_result \<Rightarrow> bool" where
  "fake_picture_detected result =
     list_ex (\<lambda>(g, gr).
       list_ex (\<lambda>(p, pr). pr_program_type pr = fake_picture \<and> pass_status pr = FAIL)
         (program_results gr))
       (group_results result)"

section \<open>Sample data\<close>

text \<open>Small inputs on which the properties below are exercised: rows of group
  \<^verbatim>\<open>GROUP_A\<close> for customer \<^verbatim>\<open>CUST_000001\<close>.\<close>

definition sample_row :: "string \<Rightarrow> int \<Rightarrow> int \<Rightarrow> merged_row" where
  "sample_row p v q =
     \<lparr>m_group = ''GROUP_A'', m_value = v, m_program_type = p,
      m_customer_id = ''CUST_000001'', m_qty = q\<rparr>"

definition sample_condition :: "string \<Rightarrow> int \<Rightarrow> int \<Rightarrow> condition_row" where
  "sample_condition p min_value group_min =
     \<lparr>c_group = ''GROUP_A'', c_condition_min_value = min_value, c_condition_point = 1,
      c_group_min_value = group_min, c_program_type = p\<rparr>"

definition sample_conditions :: "condition_row list" where
  "sample_conditions =
     [sample_condition ''PROG_001'' 40 2, sample_condition ''PROG_002'' 1 2,
      sample_condition ''PROG_003'' 5 2]"

definition duplicate_audit :: "audit_row list" where
  "duplicate_audit =
     [\<lparr>a_group = ''GROUP_A'', a_value = 5, a_program_type = ''PROG_002'',
       a_customer_id = ''CUST_000001''\<rparr>,
      \<lparr>a_group = ''GROUP_A'', a_value = 7, a_program_type = ''PROG_002'',
       a_customer_id = ''CUST_000001''\<rparr>]"

definition sample_registration :: "string \<Rightarrow> int \<Rightarrow> registration_row" where
  "sample_registration p q = \<lparr>r_program_type = p, r_qty = q, r_customer_id = ''CUST_000001''\<rparr>"

definition three_rows :: "merged_row list" where
  "three_rows =
     [sample_row ''PROG_001'' 90 2, sample_row ''PROG_002'' 0 1, sample_row ''PROG_003'' 9 1]"

text \<open>Inputs of a whole customer: two groups, one condition each.\<close>

definition audit_of :: "string \<Rightarrow> string \<Rightarrow> string \<Rightarrow> int \<Rightarrow> audit_row" where
  "audit_of customer g p v =
     \<lparr>a_group = g, a_value = v, a_program_type = p, a_customer_id = customer\<rparr>"

definition registration_of :: "string \<Rightarrow> string \<Rightarrow> int \<Rightarrow> registration_row" where
  "registration_of customer p q = \<lparr>r_program_type = p, r_qty = q, r_customer_id = customer\<rparr>"

definition condition_of :: "string \<Rightarrow> string \<Rightarrow> int \<Rightarrow> int \<Rightarrow> condition_row" where
  "condition_of g p min_value group_min =
     \<lparr>c_group = g, c_condition_min_value = min_value, c_condition_point = 1,
      c_group_min_value = group_min, c_program_type = p\<rparr>"

definition two_group_conditions :: "condition_row list" where
  "two_group_conditions =
     [condition_of ''GROUP_A'' ''PROG_001'' 40 1, condition_of ''GROUP_B'' ''PROG_010'' 3 1]"

definition two_group_audit :: "audit_row list" where
  "two_group_audit =
     [audit_of ''CUST_000001'' ''GROUP_B'' ''PROG_010'' 0,
      audit_of ''CUST_000001'' ''GROUP_A'' ''PROG_001'' 90]"

definition two_group_registration :: "registration_row list" where
  "two_group_registration =
     [registration_of ''CUST_000001'' ''PROG_001'' 2,
      registration_of ''CUST_000001'' ''PROG_010'' 1,
      registration_of ''CUST_000002'' ''PROG_001'' 1]"

text \<open>The statuses of a customer result: per group, its status and the status of each
  program result.\<close>

definition status_summary :: "customer_result \<Rightarrow> (string \<times> status \<times> (string \<times> status) list) list" where
  "status_summary result =
     map (\<lambda>(g, gr). (g, group_status gr, map (\<lambda>(p, pr). (p, pass_status pr)) (program_results gr)))
       (group_results result)"

definition quota_conditions :: "int \<Rightarrow> condition_row list" where
  "quota_conditions group_min = [condition_of ''GROUP_A'' ''PROG_001'' 40 group_min]"

definition veto_audit :: "audit_row list" where
  "veto_audit =
     [audit_of ''CUST_000001'' ''GROUP_A'' fake_picture 3,
      audit_of ''CUST_000001'' ''GROUP_A'' ''PROG_001'' 90]"

definition veto_registration :: "registration_row list" where
  "veto_registration =
     [registration_of ''CUST_000001'' ''PROG_001'' 2,
      registration_of ''CUST_000001'' fake_picture 1]"

definition unregistered_program_audit :: "audit_row list" where
  "unregistered_program_audit = [audit_of ''CUST_000002'' ''GROUP_B'' ''PROG_010'' 5]"

definition negative_qty_audit :: "audit_row list" where
  "negative_qty_audit = [audit_of ''CUST_000001'' ''GROUP_A'' ''PROG_001'' 0]"

definition negative_qty_registration :: "registration_row list" where
  "negative_qty_registration = [registration_of ''CUST_000001'' ''PROG_001'' (- 1)]"

definition unregistered_sentinel_audit :: "audit_row list" where
  "unregistered_sentinel_audit =
     [audit_of ''CUST_000001'' ''GROUP_A'' fake_picture 3,
      audit_of ''CUST_000001'' ''GROUP_A'' ''PROG_001'' 90]"

definition no_sentinel_registration :: "registration_row list" where
  "no_sentinel_registration =
     [registration_of ''CUST_000001'' ''PROG_001'' 2,
      registration_of ''CUST_000002'' fake_picture 1]"

definition batch_audit :: "audit_row list" where
  "batch_audit =
     [audit_of ''CUST_000002'' ''GROUP_B'' ''PROG_010'' 5,
      audit_of ''CUST_000001'' ''GROUP_A'' ''PROG_001'' 90]"

definition batch_registration :: "registration_row list" where
  "batch_registration =
     [registration_of ''CUST_000001'' ''PROG_001'' 2,
      registration_of ''CUST_000002'' ''PROG_001'' 1,
      registration_of ''CUST_000004'' ''PROG_001'' 1]"

section \<open>Auxiliary facts about the loops\<close>

lemmas sample_defs = audit_of_def registration_of_def condition_of_def two_group_conditions_def
  two_group_audit_def two_group_registration_def

lemmas eval_defs = process_single_customer_def merge_inner_def groupby_group_def
  process_single_group_def evaluate_row_def handle_normal_program_def
  handle_fake_picture_program_def fake_picture_def Let_def

lemma wrap_int64_id: "is_int64 x \<Longrightarrow> wrap_int64 x = x"
  by (simp add: is_int64_def wrap_int64_def)

lemma is_int64_wrap: "is_int64 (wrap_int64 x)"
  by (simp add: is_int64_def wrap_int64_def)

lemma wrap_int64_small [simp]: "- 9223372036854775808 \<le> x \<Longrightarrow> x < 9223372036854775808 \<Longrightarrow> wrap_int64 x = x"
  by (simp add: wrap_int64_def)

lemma update_fresh: "k \<notin> fst ` set al \<Longrightarrow> AList.update k v al = al @ [(k, v)]"
  by (induction al) auto

lemma set_update_subset: "set (AList.update k v al) \<subseteq> insert (k, v) (set al)"
  by (induction al) auto

lemma status_not_PASS [simp]: "(s \<noteq> PASS) = (s = FAIL)"
  by (cases s) auto

lemma status_not_FAIL [simp]: "(s \<noteq> FAIL) = (s = PASS)"
  by (cases s) auto

lemma process_rows_passed:
  "snd (process_rows rows conds (res, n)) =
     n + int (length (filter (\<lambda>r. pass_status (evaluate_row r conds) = PASS) rows))"
  by (induction rows arbitrary: res n) (auto simp: Let_def)

lemma process_rows_distinct:
  "distinct (map fst res) \<Longrightarrow> distinct (map fst (fst (process_rows rows conds (res, n))))"
  by (induction rows arbitrary: res n) (auto simp: Let_def distinct_update)

lemma process_rows_fresh:
  "distinct (map m_program_type rows) \<Longrightarrow> fst ` set res \<inter> m_program_type ` set rows = {} \<Longrightarrow>
   fst (process_rows rows conds (res, n)) =
     res @ map (\<lambda>r. (m_program_type r, evaluate_row r conds)) rows"
proof (induction rows arbitrary: res n)
  case Nil
  then show ?case by simp
next
  case (Cons r rows)
  let ?res' = "AList.update (m_program_type r) (evaluate_row r conds) res"
  from Cons.prems have fresh: "m_program_type r \<notin> fst ` set res" by auto
  then have upd: "?res' = res @ [(m_program_type r, evaluate_row r conds)]"
    by (rule update_fresh)
  from Cons.prems have "distinct (map m_program_type rows)" by simp
  moreover from Cons.prems have "fst ` set ?res' \<inter> m_program_type ` set rows = {}"
    unfolding upd by auto
  ultimately have "fst (process_rows rows conds (?res', k)) =
      ?res' @ map (\<lambda>r. (m_program_type r, evaluate_row r conds)) rows" for k
    by (rule Cons.IH)
  then show ?case by (simp add: Let_def upd)
qed

lemma evaluate_row_program_type: "pr_program_type (evaluate_row r conds) = m_program_type r"
  by (simp add: evaluate_row_def handle_fake_picture_program_def handle_normal_program_def
      Let_def split: list.split)

lemma process_rows_entries:
  "(p, pr) \<in> set (fst (process_rows rows conds (res, n))) \<Longrightarrow>
   (p, pr) \<in> set res \<or> (\<exists>r \<in> set rows. p = m_program_type r \<and> pr = evaluate_row r conds)"
proof (induction rows arbitrary: res n)
  case Nil
  then show ?case by simp
next
  case (Cons r rows)
  from Cons.prems obtain k where
    "(p, pr) \<in> set (fst (process_rows rows conds
        (AList.update (m_program_type r) (evaluate_row r conds) res, k)))"
    by (auto simp: Let_def split: if_splits)
  from Cons.IH [OF this] show ?case
    using set_update_subset [of "m_program_type r" "evaluate_row r conds" res] by auto
qed

lemma determine_overall_status_FAIL:
  "determine_overall_status rs = FAIL \<longleftrightarrow> (\<exists>(g, gr) \<in> set rs. group_status gr = FAIL)"
  by (induction rs rule: determine_overall_status.induct) auto

lemma process_groups_fresh:
  "distinct (map fst gs) \<Longrightarrow> fst ` set res \<inter> fst ` set gs = {} \<Longrightarrow>
   process_groups gs conds res =
     res @ map (\<lambda>(g, rows). (g, process_single_group g rows conds)) gs"
proof (induction gs conds res rule: process_groups.induct)
  case (1 conds res)
  then show ?case by simp
next
  case (2 g rows rest conds res)
  let ?res' = "AList.update g (process_single_group g rows conds) res"
  from "2.prems" have "g \<notin> fst ` set res" by auto
  then have upd: "?res' = res @ [(g, process_single_group g rows conds)]"
    by (rule update_fresh)
  from "2.prems" have "distinct (map fst rest)" by simp
  moreover from "2.prems" have "fst ` set ?res' \<inter> fst ` set rest = {}"
    unfolding upd by (auto simp: image_iff)
  ultimately have "process_groups rest conds ?res' =
      ?res' @ map (\<lambda>(g, rows). (g, process_single_group g rows conds)) rest"
    by (rule "2.IH")
  then show ?case by (simp add: upd)
qed

lemma groupby_group_keys: "map fst (groupby_group ms) = sort (remdups (map m_group ms))"
  by (simp add: groupby_group_def comp_def)

lemma process_groups_groupby:
  "process_groups (groupby_group ms) conds [] =
     map (\<lambda>g. (g, process_single_group g (filter (\<lambda>m. m_group m = g) ms) conds))
       (sort (remdups (map m_group ms)))"
proof -
  have "distinct (map fst (groupby_group ms))"
    by (simp add: groupby_group_keys)
  then have "process_groups (groupby_group ms) conds [] =
      map (\<lambda>(g, rows). (g, process_single_group g rows conds)) (groupby_group ms)"
    using process_groups_fresh [of "groupby_group ms" "[]" conds] by simp
  then show ?thesis by (simp add: groupby_group_def comp_def)
qed

lemma process_single_group_conds:
  "filter (\<lambda>c. c_group c = g) conds = c # cs \<Longrightarrow>
   process_single_group g rows conds =
     \<lparr>gr_group = g,
      group_status = (if int (length (filter (\<lambda>r. pass_status (evaluate_row r (c # cs)) = PASS) rows))
                        \<ge> c_group_min_value c then PASS else FAIL),
      gr_reason = None,
      passed_programs = Some (int (length (filter (\<lambda>r. pass_status (evaluate_row r (c # cs)) = PASS) rows))),
      required_programs = Some (c_group_min_value c),
      program_results = fst (process_rows rows (c # cs) ([], 0))\<rparr>"
  using process_rows_passed [of rows "c # cs" "[]" 0]
  by (cases "process_rows rows (c # cs) ([], 0)") (simp add: process_single_group_def)

lemma passed_program_verdicts_distinct:
  assumes "distinct (map m_program_type rows)"
  shows "passed_program_verdicts (fst (process_rows rows conds ([], 0))) =
     int (length (filter (\<lambda>r. pass_status (evaluate_row r conds) = PASS) rows))"
proof -
  have "fst (process_rows rows conds ([], 0)) =
      map (\<lambda>r. (m_program_type r, evaluate_row r conds)) rows"
    using process_rows_fresh [OF assms, of "[]" conds 0] by simp
  then show ?thesis
    by (simp add: passed_program_verdicts_def filter_map comp_def)
qed

lemma process_single_customer_processed:
  assumes "group_results (process_single_customer cid audit conds regs) \<noteq> []"
  shows "process_single_customer cid audit conds regs =
     \<lparr>cr_customer_id = cid,
      overall_status = determine_overall_status
        (process_groups (groupby_group
           (merge_inner audit (filter (\<lambda>r. r_customer_id r = cid) regs))) conds []),
      cr_reason = ''PROCESSED'',
      group_results = process_groups (groupby_group
           (merge_inner audit (filter (\<lambda>r. r_customer_id r = cid) regs))) conds []\<rparr>"
  using assms by (simp add: process_single_customer_def Let_def split: if_splits)

lemma group_results_processed:
  "group_results (process_single_customer cid audit conds regs) = [] \<or>
   group_results (process_single_customer cid audit conds regs) =
     map (\<lambda>g. (g, process_single_group g
        (filter (\<lambda>m. m_group m = g)
           (merge_inner audit (filter (\<lambda>r. r_customer_id r = cid) regs))) conds))
       (sort (remdups (map m_group
           (merge_inner audit (filter (\<lambda>r. r_customer_id r = cid) regs)))))"
  by (simp add: process_single_customer_def Let_def process_groups_groupby)

lemma group_results_entry:
  assumes "(g, gr) \<in> set (group_results (process_single_customer cid audit conds regs))"
  shows "gr = process_single_group g
        (filter (\<lambda>m. m_group m = g)
           (merge_inner audit (filter (\<lambda>r. r_customer_id r = cid) regs))) conds"
  using assms group_results_processed [of cid audit conds regs] by auto

lemma group_results_distinct:
  "distinct (map fst (group_results (process_single_customer cid audit conds regs)))"
  using group_results_processed [of cid audit conds regs] by (auto simp: comp_def)

lemma program_results_entry:
  assumes "(p, pr) \<in> set (program_results (process_single_group g rows conds))"
  shows "\<exists>r \<in> set rows. p = m_program_type r \<and>
           pr = evaluate_row r (filter (\<lambda>c. c_group c = g) conds)"
proof (cases "filter (\<lambda>c. c_group c = g) conds")
  case Nil
  with assms show ?thesis by (simp add: process_single_group_def)
next
  case (Cons c cs)
  from assms have "(p, pr) \<in> set (fst (process_rows rows (c # cs) ([], 0)))"
    by (simp add: process_single_group_conds [OF Cons])
  from process_rows_entries [OF this] show ?thesis by (simp add: Cons)
qed

lemma program_results_distinct:
  "distinct (map fst (program_results (process_single_group g rows conds)))"
proof (cases "filter (\<lambda>c. c_group c = g) conds")
  case Nil
  then show ?thesis by (simp add: process_single_group_def)
next
  case (Cons c cs)
  show ?thesis
    using process_rows_distinct [of "[]" rows "c # cs" 0]
    by (simp add: process_single_group_conds [OF Cons])
qed


lemmas veto_defs = quota_conditions_def veto_audit_def veto_registration_def
  audit_of_def registration_of_def condition_of_def

lemma merge_inner_empty:
  "merge_inner audit regs = [] \<longleftrightarrow>
     \<not> (\<exists>a \<in> set audit. \<exists>r \<in> set regs.
          r_customer_id r = a_customer_id a \<and> r_program_type r = a_program_type a)"
  by (auto simp: merge_inner_def filter_empty_conv)

lemma process_single_customer_no_registration:
  assumes "\<not> (\<exists>r \<in> set regs. r_customer_id r = cid)"
  shows "process_single_customer cid audit conds regs =
     \<lparr>cr_customer_id = cid, overall_status = FAIL, cr_reason = ''NO_REGISTRATION'',
      group_results = []\<rparr>"
  using assms by (simp add: process_single_customer_def filter_empty_conv)

lemma process_single_customer_no_audit_data:
  assumes "\<exists>r \<in> set regs. r_customer_id r = cid"
    and "\<not> (\<exists>a \<in> set audit. \<exists>r \<in> set regs.
          r_customer_id r = cid \<and> a_customer_id a = cid \<and> a_program_type a = r_program_type r)"
  shows "process_single_customer cid audit conds regs =
     \<lparr>cr_customer_id = cid, overall_status = FAIL, cr_reason = ''NO_AUDIT_DATA'',
      group_results = []\<rparr>"
proof -
  from assms(1) have "filter (\<lambda>r. r_customer_id r = cid) regs \<noteq> []"
    by (simp add: filter_empty_conv)
  moreover from assms(2) have "merge_inner audit (filter (\<lambda>r. r_customer_id r = cid) regs) = []"
    unfolding merge_inner_empty by fastforce
  ultimately show ?thesis
    by (simp add: process_single_customer_def)
qed

lemma program_results_keys:
  assumes "(p, pr) \<in> set (program_results (process_single_group g rows conds))"
  shows "pr_program_type pr = p"
  using program_results_entry [OF assms] by (auto simp: evaluate_row_program_type)

lemma sentinel_flag_entry:
  "fake_picture_detected (process_single_customer cid audit conds regs) \<longleftrightarrow>
     (\<exists>g gr pv. (g, gr) \<in> set (group_results (process_single_customer cid audit conds regs)) \<and>
        (fake_picture, pv) \<in> set (program_results gr) \<and> pass_status pv = FAIL)"
  (is "?L \<longleftrightarrow> ?R")
proof
  assume ?L
  then obtain g gr p pr where
    g: "(g, gr) \<in> set (group_results (process_single_customer cid audit conds regs))"
    and p: "(p, pr) \<in> set (program_results gr)"
    and s: "pr_program_type pr = fake_picture" "pass_status pr = FAIL"
    by (auto simp: fake_picture_detected_def list_ex_iff)
  from p have "pr_program_type pr = p"
    unfolding group_results_entry [OF g] by (rule program_results_keys)
  with g p s show ?R by auto
next
  assume ?R
  then obtain g gr pv where
    g: "(g, gr) \<in> set (group_results (process_single_customer cid audit conds regs))"
    and p: "(fake_picture, pv) \<in> set (program_results gr)"
    and s: "pass_status pv = FAIL"
    by auto
  from p have "pr_program_type pv = fake_picture"
    unfolding group_results_entry [OF g] by (rule program_results_keys)
  with g p s show ?L
    by (force simp: fake_picture_detected_def list_ex_iff)
qed

lemma merge_inner_drops_unregistered:
  assumes "\<not> (\<exists>r \<in> set regs. r_program_type r = p)"
  shows "merge_inner (filter (\<lambda>a. a_program_type a \<noteq> p) audit) regs = merge_inner audit regs"
proof (induction audit)
  case Nil
  then show ?case by (simp add: merge_inner_def)
next
  case (Cons a audit)
  have "a_program_type a = p \<Longrightarrow>
      filter (\<lambda>r. r_customer_id r = a_customer_id a \<and> r_program_type r = a_program_type a) regs = []"
    using assms by (auto simp: filter_empty_conv)
  with Cons show ?case by (auto simp: merge_inner_def)
qed

lemma merge_inner_program_type:
  assumes "m \<in> set (merge_inner audit regs)"
  shows "\<exists>r \<in> set regs. r_program_type r = m_program_type m \<and> r_customer_id r = m_customer_id m"
  using assms by (auto simp: merge_inner_def)

lemma process_customers_fresh:
  "distinct (map fst cs) \<Longrightarrow> fst ` set res \<inter> fst ` set cs = {} \<Longrightarrow>
   process_customers cs conds regs res =
     res @ map (\<lambda>(c, rows). (c, process_single_customer c rows conds regs)) cs"
proof (induction cs conds regs res rule: process_customers.induct)
  case (1 conds regs res)
  then show ?case by simp
next
  case (2 c rows rest conds regs res)
  let ?res' = "AList.update c (process_single_customer c rows conds regs) res"
  from "2.prems" have "c \<notin> fst ` set res" by auto
  then have upd: "?res' = res @ [(c, process_single_customer c rows conds regs)]"
    by (rule update_fresh)
  from "2.prems" have "distinct (map fst rest)" by simp
  moreover from "2.prems" have "fst ` set ?res' \<inter> fst ` set rest = {}"
    unfolding upd by (auto simp: image_iff)
  ultimately have "process_customers rest conds regs ?res' =
      ?res' @ map (\<lambda>(c, rows). (c, process_single_customer c rows conds regs)) rest"
    by (rule "2.IH")
  then show ?case by (simp add: upd)
qed

lemma process_audit_for_all_customers_eq:
  "process_audit_for_all_customers audit conds regs =
     map (\<lambda>c. (c, process_single_customer c (filter (\<lambda>a. a_customer_id a = c) audit) conds regs))
       (sort (remdups (map a_customer_id audit)))"
proof -
  have "distinct (map fst (groupby_customer audit))"
    by (simp add: groupby_customer_def comp_def)
  then have "process_customers (groupby_customer audit) conds regs [] =
      map (\<lambda>(c, rows). (c, process_single_customer c rows conds regs)) (groupby_customer audit)"
    using process_customers_fresh [of "groupby_customer audit" "[]" conds regs] by simp
  then show ?thesis
    by (simp add: process_audit_for_all_customers_def groupby_customer_def comp_def)
qed

section \<open>Threshold evaluation of an ordinary program\<close>




section \<open>Quota evaluation of a group\<close>

text \<open>
  A group without conditions is FAIL with reason NO_CONDITIONS. Otherwise the required
  count is the \<^verbatim>\<open>group_min_value\<close> of the group's first condition, the counter
  \<^verbatim>\<open>passed_programs\<close> is the number of matched rows of the group whose evaluation is
  PASS, and the group is PASS if and only if the counter reaches the required count. When
  the rows of the group have pairwise distinct program types, the counter is also the
  number of entries of \<^verbatim>\<open>program_results\<close> with status PASS.
\<close>

lemma process_single_group_quota:
  "case filter (\<lambda>c. c_group c = g) conds of
     [] \<Rightarrow>
       group_status (process_single_group g rows conds) = FAIL \<and>
       gr_reason (process_single_group g rows conds) = Some ''NO_CONDITIONS''
   | c # cs \<Rightarrow>
       passed_programs (process_single_group g rows conds) =
         Some (int (length (filter (\<lambda>r. pass_status (evaluate_row r (c # cs)) = PASS) rows))) \<and>
       required_programs (process_single_group g rows conds) = Some (c_group_min_value c) \<and>
       (group_status (process_single_group g rows conds) = PASS \<longleftrightarrow>
          int (length (filter (\<lambda>r. pass_status (evaluate_row r (c # cs)) = PASS) rows))
            \<ge> c_group_min_value c) \<and>
       (distinct (map m_program_type rows) \<longrightarrow>
          passed_program_verdicts (program_results (process_single_group g rows conds)) =
            int (length (filter (\<lambda>r. pass_status (evaluate_row r (c # cs)) = PASS) rows)))"
proof (cases "filter (\<lambda>c. c_group c = g) conds")
  case Nil
  then show ?thesis by (simp add: process_single_group_def)
next
  case (Cons c cs)
  show ?thesis
    unfolding Cons list.case process_single_group_conds [OF Cons]
    by (simp add: passed_program_verdicts_distinct)
qed

text \<open>Two of three programs pass and two are required: the group passes.\<close>

lemma process_single_group_quota_example:
  "distinct (map m_program_type three_rows) \<and>
   passed_programs (process_single_group ''GROUP_A'' three_rows sample_conditions) = Some 2 \<and>
   required_programs (process_single_group ''GROUP_A'' three_rows sample_conditions) = Some 2 \<and>
   group_status (process_single_group ''GROUP_A'' three_rows sample_conditions) = PASS \<and>
   passed_program_verdicts
     (program_results (process_single_group ''GROUP_A'' three_rows sample_conditions)) = 2"
  using process_single_group_quota
      [where g = "''GROUP_A''" and conds = sample_conditions and rows = three_rows]
  by (simp add: three_rows_def sample_conditions_def sample_condition_def sample_row_def
      evaluate_row_def handle_normal_program_def fake_picture_def wrap_int64_def Let_def)

lemma duplicate_audit_merge:
  "merge_inner duplicate_audit [sample_registration ''PROG_002'' 1] =
     [sample_row ''PROG_002'' 5 1, sample_row ''PROG_002'' 7 1]"
  by (simp add: merge_inner_def duplicate_audit_def sample_registration_def sample_row_def)

text \<open>
  Claim C2. With the required count taken from the group's first condition, the group is
  PASS if and only if the number of program results of the group with status PASS reaches
  the required count. The code does not meet this when a program is audited twice: the
  loop counts both rows in \<^verbatim>\<open>passed_programs\<close>, while \<^verbatim>\<open>program_results\<close> keeps one
  result for the program. For two audit rows of one registered program and a required count
  of 2, the counter is 2 and the group is PASS, although the number of program results with
  status PASS, as \<^verbatim>\<open>save_results_to_database\<close> counts them, is 1.
\<close>

theorem duplicate_rows_counted_twice:
  "group_status (process_single_group ''GROUP_A''
      (merge_inner duplicate_audit [sample_registration ''PROG_002'' 1]) sample_conditions) = PASS \<and>
   required_programs (process_single_group ''GROUP_A''
      (merge_inner duplicate_audit [sample_registration ''PROG_002'' 1]) sample_conditions) = Some 2 \<and>
   passed_programs (process_single_group ''GROUP_A''
      (merge_inner duplicate_audit [sample_registration ''PROG_002'' 1]) sample_conditions) = Some 2 \<and>
   passed_program_verdicts (program_results (process_single_group ''GROUP_A''
      (merge_inner duplicate_audit [sample_registration ''PROG_002'' 1]) sample_conditions)) = 1"
  unfolding duplicate_audit_merge
  by (simp add: process_single_group_def sample_conditions_def sample_condition_def
      sample_row_def evaluate_row_def handle_normal_program_def fake_picture_def
      passed_program_verdicts_def wrap_int64_def Let_def)

section \<open>The sentinel program\<close>

text \<open>
  Claim C3, as amended. For a row of the program type \<^verbatim>\<open>fake_picture\<close> the result is
  FAIL if and only if the audit value is greater than 0 and PASS if and only if the audit
  value is at most 0; for an audit value that is not negative, PASS if and only if it is 0.
  The result is that of \<^const>\<open>handle_fake_picture_program\<close> on the audit value alone:
  neither the registered quantity nor the conditions enter it.
\<close>

theorem sentinel_verdict_depends_on_value_only:
  assumes "m_program_type row = fake_picture"
  shows "(pass_status (evaluate_row row conds) = FAIL \<longleftrightarrow> m_value row > 0) \<and>
         (pass_status (evaluate_row row conds) = PASS \<longleftrightarrow> m_value row \<le> 0) \<and>
         (m_value row \<ge> 0 \<longrightarrow>
            (pass_status (evaluate_row row conds) = PASS \<longleftrightarrow> m_value row = 0)) \<and>
         evaluate_row row conds = handle_fake_picture_program (m_value row)"
  using assms by (auto simp: evaluate_row_def handle_fake_picture_program_def)

theorem sentinel_verdict_depends_on_value_only_witness:
  "m_program_type (sample_row fake_picture 3 2) = fake_picture \<and>
   m_program_type (sample_row fake_picture 0 2) = fake_picture \<and>
   pass_status (evaluate_row (sample_row fake_picture 3 2) sample_conditions) = FAIL \<and>
   pass_status (evaluate_row (sample_row fake_picture 0 2) sample_conditions) = PASS \<and>
   evaluate_row (sample_row fake_picture 3 7) [] =
     evaluate_row (sample_row fake_picture 3 2) sample_conditions"
  using sentinel_verdict_depends_on_value_only [of "sample_row fake_picture 3 2" sample_conditions]
    sentinel_verdict_depends_on_value_only [of "sample_row fake_picture 0 2" sample_conditions]
    sentinel_verdict_depends_on_value_only [of "sample_row fake_picture 3 7" "[]"]
  by (simp add: sample_row_def handle_fake_picture_program_def)

text \<open>
  Claim C3 as stated fails at a negative audit value: the result is PASS although the value
  is not 0.
\<close>

theorem sentinel_negative_value_counterexample:
  "m_program_type (sample_row fake_picture (- 1) 1) = fake_picture \<and>
   m_value (sample_row fake_picture (- 1) 1) \<noteq> 0 \<and>
   pass_status (evaluate_row (sample_row fake_picture (- 1) 1) sample_conditions) = PASS"
  by (simp add: sample_row_def evaluate_row_def handle_fake_picture_program_def)

section \<open>Overall status of a customer\<close>

text \<open>
  Claim C5. When a customer has at least one group result, the overall status is PASS if and
  only if every group result has status PASS, and one group with status FAIL makes the
  overall status FAIL.
\<close>

theorem overall_status_all_groups:
  assumes "group_results (process_single_customer cid audit conds regs) \<noteq> []"
  shows "(overall_status (process_single_customer cid audit conds regs) = PASS \<longleftrightarrow>
          (\<forall>(g, gr) \<in> set (group_results (process_single_customer cid audit conds regs)).
             group_status gr = PASS)) \<and>
         ((\<exists>(g, gr) \<in> set (group_results (process_single_customer cid audit conds regs)).
             group_status gr = FAIL) \<longrightarrow>
          overall_status (process_single_customer cid audit conds regs) = FAIL)"
proof -
  let ?rs = "process_groups (groupby_group
           (merge_inner audit (filter (\<lambda>r. r_customer_id r = cid) regs))) conds []"
  have fail: "determine_overall_status ?rs = FAIL \<longleftrightarrow>
      (\<exists>(g, gr) \<in> set ?rs. group_status gr = FAIL)"
    by (rule determine_overall_status_FAIL)
  have "determine_overall_status ?rs = PASS \<longleftrightarrow> determine_overall_status ?rs \<noteq> FAIL"
    by simp
  also have "\<dots> \<longleftrightarrow> (\<forall>(g, gr) \<in> set ?rs. group_status gr = PASS)"
    unfolding fail by auto
  finally show ?thesis
    unfolding process_single_customer_processed [OF assms] using fail by simp
qed


text \<open>A customer with a failing and a passing group fails; without the audit row of the
  failing group the customer passes.\<close>

theorem overall_status_all_groups_witness:
  "group_results (process_single_customer ''CUST_000001'' two_group_audit two_group_conditions
     two_group_registration) \<noteq> [] \<and>
   overall_status (process_single_customer ''CUST_000001'' two_group_audit two_group_conditions
     two_group_registration) = FAIL \<and>
   group_results (process_single_customer ''CUST_000001'' (tl two_group_audit) two_group_conditions
     two_group_registration) \<noteq> [] \<and>
   overall_status (process_single_customer ''CUST_000001'' (tl two_group_audit) two_group_conditions
     two_group_registration) = PASS"
  using overall_status_all_groups [of "''CUST_000001''" two_group_audit two_group_conditions
     two_group_registration]
    overall_status_all_groups [of "''CUST_000001''" "tl two_group_audit" two_group_conditions
     two_group_registration]
  by (simp add: sample_defs eval_defs)


section \<open>A failing sentinel program and the quota of its group\<close>





section \<open>Customers without registration or without matching audit rows\<close>

text \<open>
  Claim C7. A customer without any registration row gets the result FAIL with reason
  NO_REGISTRATION and no group results. A customer with registration rows whose join with
  the audit rows on customer and program type is empty gets the result FAIL with reason
  NO_AUDIT_DATA and no group results. The join is empty exactly when no audit row of the
  customer is for a program type the customer registered.
\<close>

theorem process_single_customer_no_data:
  "((\<not> (\<exists>r \<in> set regs. r_customer_id r = cid)) \<longrightarrow>
      process_single_customer cid audit conds regs =
        \<lparr>cr_customer_id = cid, overall_status = FAIL, cr_reason = ''NO_REGISTRATION'',
         group_results = []\<rparr>) \<and>
   ((\<exists>r \<in> set regs. r_customer_id r = cid) \<and>
    merge_inner audit (filter (\<lambda>r. r_customer_id r = cid) regs) = [] \<longrightarrow>
      process_single_customer cid audit conds regs =
        \<lparr>cr_customer_id = cid, overall_status = FAIL, cr_reason = ''NO_AUDIT_DATA'',
         group_results = []\<rparr>) \<and>
   (merge_inner audit (filter (\<lambda>r. r_customer_id r = cid) regs) = [] \<longleftrightarrow>
      \<not> (\<exists>a \<in> set audit. \<exists>r \<in> set regs.
          r_customer_id r = cid \<and> a_customer_id a = cid \<and> a_program_type a = r_program_type r))"
proof (intro conjI impI)
  assume "\<not> (\<exists>r \<in> set regs. r_customer_id r = cid)"
  then show "process_single_customer cid audit conds regs =
        \<lparr>cr_customer_id = cid, overall_status = FAIL, cr_reason = ''NO_REGISTRATION'',
         group_results = []\<rparr>"
    by (rule process_single_customer_no_registration)
next
  show join: "merge_inner audit (filter (\<lambda>r. r_customer_id r = cid) regs) = [] \<longleftrightarrow>
      \<not> (\<exists>a \<in> set audit. \<exists>r \<in> set regs.
          r_customer_id r = cid \<and> a_customer_id a = cid \<and> a_program_type a = r_program_type r)"
    unfolding merge_inner_empty by fastforce
  assume "(\<exists>r \<in> set regs. r_customer_id r = cid) \<and>
    merge_inner audit (filter (\<lambda>r. r_customer_id r = cid) regs) = []"
  then show "process_single_customer cid audit conds regs =
        \<lparr>cr_customer_id = cid, overall_status = FAIL, cr_reason = ''NO_AUDIT_DATA'',
         group_results = []\<rparr>"
    using join by (intro process_single_customer_no_audit_data) simp_all
qed

text \<open>Customer 3 has no registration; customer 2 registered one program and was audited
  for another.\<close>

theorem process_single_customer_no_data_witness:
  "filter (\<lambda>r. r_customer_id r = ''CUST_000003'') two_group_registration = [] \<and>
   cr_reason (process_single_customer ''CUST_000003'' two_group_audit two_group_conditions
      two_group_registration) = ''NO_REGISTRATION'' \<and>
   group_results (process_single_customer ''CUST_000003'' two_group_audit two_group_conditions
      two_group_registration) = [] \<and>
   filter (\<lambda>r. r_customer_id r = ''CUST_000002'') two_group_registration \<noteq> [] \<and>
   merge_inner unregistered_program_audit
      (filter (\<lambda>r. r_customer_id r = ''CUST_000002'') two_group_registration) = [] \<and>
   process_single_customer ''CUST_000002'' unregistered_program_audit two_group_conditions
      two_group_registration =
     \<lparr>cr_customer_id = ''CUST_000002'', overall_status = FAIL, cr_reason = ''NO_AUDIT_DATA'',
      group_results = []\<rparr>"
  using process_single_customer_no_data [of two_group_registration "''CUST_000003''"
      two_group_audit two_group_conditions]
    process_single_customer_no_data [of two_group_registration "''CUST_000002''"
      unregistered_program_audit two_group_conditions]
  by (simp add: sample_defs unregistered_program_audit_def merge_inner_def)


section \<open>Negative quantities and minimum values\<close>

text \<open>
  Claim C8, as amended. On integer columns no row is rejected: a row of an ordinary program
  is evaluated in the same way whatever the signs of its registered quantity and of its
  rule's minimum value. Without a rule for the program type it is FAIL with reason
  NO_CONDITION. With a rule its reason is NORMAL_PROCESSING, its required value is the
  product of minimum value and quantity, computed in int64, and it is PASS if and only if
  the audit value reaches the required value. In particular, when one of quantity and
  minimum value is negative and the other positive, and their product lies in the range of
  int64, the required value is negative and every audit value that is not negative passes.
\<close>

theorem negative_input_threshold:
  assumes "m_program_type row \<noteq> fake_picture"
  shows "case filter (\<lambda>c. c_program_type c = m_program_type row) conds of
      [] \<Rightarrow>
        pass_status (evaluate_row row conds) = FAIL \<and>
        reason (evaluate_row row conds) = ''NO_CONDITION''
    | c # cs \<Rightarrow>
        reason (evaluate_row row conds) = ''NORMAL_PROCESSING'' \<and>
        required_value (evaluate_row row conds)
          = Some (wrap_int64 (c_condition_min_value c * m_qty row)) \<and>
        (pass_status (evaluate_row row conds) = PASS \<longleftrightarrow>
           m_value row \<ge> wrap_int64 (c_condition_min_value c * m_qty row)) \<and>
        ((m_qty row < 0 \<and> c_condition_min_value c > 0 \<or>
          m_qty row > 0 \<and> c_condition_min_value c < 0) \<and>
         is_int64 (c_condition_min_value c * m_qty row) \<longrightarrow>
           wrap_int64 (c_condition_min_value c * m_qty row) < 0 \<and>
           (m_value row \<ge> 0 \<longrightarrow> pass_status (evaluate_row row conds) = PASS))"
proof (cases "filter (\<lambda>c. c_program_type c = m_program_type row) conds")
  case Nil
  with assms show ?thesis
    by (simp add: evaluate_row_def handle_normal_program_def)
next
  case (Cons c cs)
  let ?product = "c_condition_min_value c * m_qty row"
  have status: "pass_status (evaluate_row row conds) = PASS \<longleftrightarrow>
      m_value row \<ge> wrap_int64 ?product"
    using assms Cons by (simp add: evaluate_row_def handle_normal_program_def Let_def)
  have negative: "wrap_int64 ?product < 0"
    if signs: "m_qty row < 0 \<and> c_condition_min_value c > 0 \<or>
        m_qty row > 0 \<and> c_condition_min_value c < 0"
      and range: "is_int64 ?product"
  proof -
    from signs have "?product < 0"
      by (auto simp: mult_pos_neg mult_neg_pos)
    with range show ?thesis by (simp add: wrap_int64_id)
  qed
  have "reason (evaluate_row row conds) = ''NORMAL_PROCESSING''"
    and "required_value (evaluate_row row conds) = Some (wrap_int64 ?product)"
    using assms Cons by (simp_all add: evaluate_row_def handle_normal_program_def Let_def)
  with status negative show ?thesis
    unfolding Cons list.case by auto
qed

text \<open>Quantity -1 and minimum value 40 require -40, which the audit value 0 reaches; a
  program type without a rule fails with NO_CONDITION also for the quantity -1.\<close>

theorem negative_input_threshold_witness:
  "m_program_type (sample_row ''PROG_001'' 0 (- 1)) \<noteq> fake_picture \<and>
   m_qty (sample_row ''PROG_001'' 0 (- 1)) < 0 \<and>
   is_int64 (40 * m_qty (sample_row ''PROG_001'' 0 (- 1))) \<and>
   required_value (evaluate_row (sample_row ''PROG_001'' 0 (- 1)) sample_conditions) = Some (- 40) \<and>
   reason (evaluate_row (sample_row ''PROG_001'' 0 (- 1)) sample_conditions) = ''NORMAL_PROCESSING'' \<and>
   pass_status (evaluate_row (sample_row ''PROG_001'' 0 (- 1)) sample_conditions) = PASS \<and>
   reason (evaluate_row (sample_row ''PROG_009'' 0 (- 1)) sample_conditions) = ''NO_CONDITION'' \<and>
   pass_status (evaluate_row (sample_row ''PROG_009'' 0 (- 1)) sample_conditions) = FAIL"
  using negative_input_threshold [of "sample_row ''PROG_001'' 0 (- 1)" sample_conditions]
    negative_input_threshold [of "sample_row ''PROG_009'' 0 (- 1)" sample_conditions]
  by (simp add: sample_row_def sample_conditions_def sample_condition_def fake_picture_def
      is_int64_def wrap_int64_def)

text \<open>
  Claim C8 as stated fails: a customer registered with quantity -1 is processed, and the
  program, the group and the customer pass.
\<close>

theorem negative_quantity_counterexample:
  "r_qty (hd negative_qty_registration) < 0 \<and>
   process_single_customer ''CUST_000001'' negative_qty_audit (quota_conditions 1)
     negative_qty_registration =
     \<lparr>cr_customer_id = ''CUST_000001'', overall_status = PASS, cr_reason = ''PROCESSED'',
      group_results =
        [(''GROUP_A'',
          \<lparr>gr_group = ''GROUP_A'', group_status = PASS, gr_reason = None,
           passed_programs = Some 1, required_programs = Some 1,
           program_results =
             [(''PROG_001'',
               \<lparr>pr_program_type = ''PROG_001'', pass_status = PASS,
                reason = ''NORMAL_PROCESSING'', audit_value = 0, required_value = Some (- 40),
                registration_qty = Some (- 1), condition_min_value = Some 40,
                deficit = Some 0\<rparr>)]\<rparr>)]\<rparr>"
  by (simp add: negative_qty_audit_def negative_qty_registration_def veto_defs eval_defs)

section \<open>The flag for a detected fake picture\<close>

text \<open>
  Claim C9. The flag \<^verbatim>\<open>fake_picture_detected\<close> of a customer's result is true if and
  only if in some group of the result the program result stored for \<^verbatim>\<open>fake_picture\<close>
  has status FAIL. The flag does not read the overall status: replacing the overall status
  leaves it unchanged.
\<close>

theorem fake_picture_detected_iff:
  "(fake_picture_detected (process_single_customer cid audit conds regs) \<longleftrightarrow>
     (\<exists>g gr pv. map_of (group_results (process_single_customer cid audit conds regs)) g = Some gr \<and>
        map_of (program_results gr) fake_picture = Some pv \<and> pass_status pv = FAIL)) \<and>
   fake_picture_detected
     ((process_single_customer cid audit conds regs)\<lparr>overall_status := s\<rparr>) =
   fake_picture_detected (process_single_customer cid audit conds regs)"
proof
  have "(\<exists>g gr pv. (g, gr) \<in> set (group_results (process_single_customer cid audit conds regs)) \<and>
        (fake_picture, pv) \<in> set (program_results gr) \<and> pass_status pv = FAIL) \<longleftrightarrow>
     (\<exists>g gr pv. map_of (group_results (process_single_customer cid audit conds regs)) g = Some gr \<and>
        map_of (program_results gr) fake_picture = Some pv \<and> pass_status pv = FAIL)"
    (is "?A \<longleftrightarrow> ?B")
  proof
    assume ?A
    then obtain g gr pv where
      g: "(g, gr) \<in> set (group_results (process_single_customer cid audit conds regs))"
      and p: "(fake_picture, pv) \<in> set (program_results gr)"
      and s: "pass_status pv = FAIL"
      by auto
    from g have "map_of (group_results (process_single_customer cid audit conds regs)) g = Some gr"
      by (simp add: group_results_distinct)
    moreover have "distinct (map fst (program_results gr))"
      unfolding group_results_entry [OF g] by (rule program_results_distinct)
    with p have "map_of (program_results gr) fake_picture = Some pv"
      by simp
    ultimately show ?B using s by blast
  next
    assume ?B
    then show ?A by (blast dest: map_of_SomeD)
  qed
  then show "fake_picture_detected (process_single_customer cid audit conds regs) \<longleftrightarrow> ?B"
    by (simp add: sentinel_flag_entry)
next
  show "fake_picture_detected
     ((process_single_customer cid audit conds regs)\<lparr>overall_status := s\<rparr>) =
   fake_picture_detected (process_single_customer cid audit conds regs)"
    by (simp add: fake_picture_detected_def)
qed

text \<open>The flag is set for a customer that passes and for one that fails, and it is not set
  for a customer without a sentinel row.\<close>

theorem fake_picture_detected_iff_witness:
  "fake_picture_detected
     (process_single_customer ''CUST_000001'' veto_audit (quota_conditions 1) veto_registration) \<and>
   overall_status
     (process_single_customer ''CUST_000001'' veto_audit (quota_conditions 1) veto_registration) = PASS \<and>
   fake_picture_detected
     (process_single_customer ''CUST_000001'' veto_audit (quota_conditions 2) veto_registration) \<and>
   overall_status
     (process_single_customer ''CUST_000001'' veto_audit (quota_conditions 2) veto_registration) = FAIL \<and>
   \<not> fake_picture_detected
     (process_single_customer ''CUST_000001'' two_group_audit two_group_conditions
        two_group_registration) \<and>
   (\<exists>g gr pv. map_of (group_results (process_single_customer ''CUST_000001'' veto_audit
        (quota_conditions 1) veto_registration)) g = Some gr \<and>
        map_of (program_results gr) fake_picture = Some pv \<and> pass_status pv = FAIL)"
  using fake_picture_detected_iff [of "''CUST_000001''" veto_audit "quota_conditions 1"
      veto_registration PASS]
  by (simp add: veto_defs sample_defs eval_defs fake_picture_detected_def)


section \<open>Sentinel audit rows without a registration\<close>

text \<open>
  Claim C10. When the customer has no registration row for \<^verbatim>\<open>fake_picture\<close>, the
  join drops every audit row of that program type: the result is the one obtained without
  these audit rows, no group holds a program result for \<^verbatim>\<open>fake_picture\<close>, and the flag
  for a detected fake picture is not set.
\<close>

theorem unregistered_sentinel_dropped:
  assumes "\<not> (\<exists>r \<in> set regs. r_customer_id r = cid \<and> r_program_type r = fake_picture)"
  shows "process_single_customer cid audit conds regs =
           process_single_customer cid (filter (\<lambda>a. a_program_type a \<noteq> fake_picture) audit)
             conds regs \<and>
         (\<forall>(g, gr) \<in> set (group_results (process_single_customer cid audit conds regs)).
            map_of (program_results gr) fake_picture = None) \<and>
         \<not> fake_picture_detected (process_single_customer cid audit conds regs)"
proof (intro conjI)
  let ?creg = "filter (\<lambda>r. r_customer_id r = cid) regs"
  from assms have none: "\<not> (\<exists>r \<in> set ?creg. r_program_type r = fake_picture)"
    by auto
  show "process_single_customer cid audit conds regs =
           process_single_customer cid (filter (\<lambda>a. a_program_type a \<noteq> fake_picture) audit)
             conds regs"
    by (simp add: process_single_customer_def Let_def merge_inner_drops_unregistered [OF none])
  have no_key: "fake_picture \<notin> fst ` set (program_results gr)"
    if g: "(g, gr) \<in> set (group_results (process_single_customer cid audit conds regs))"
    for g gr
  proof
    assume "fake_picture \<in> fst ` set (program_results gr)"
    then obtain pv where "(fake_picture, pv) \<in> set (program_results gr)"
      by auto
    then obtain m where "m \<in> set (merge_inner audit ?creg)" "m_program_type m = fake_picture"
      unfolding group_results_entry [OF g] by (auto dest!: program_results_entry)
    with merge_inner_program_type [of m audit ?creg] none show False
      by auto
  qed
  then show "\<forall>(g, gr) \<in> set (group_results (process_single_customer cid audit conds regs)).
            map_of (program_results gr) fake_picture = None"
    by (auto simp: map_of_eq_None_iff)
  from no_key show "\<not> fake_picture_detected (process_single_customer cid audit conds regs)"
    unfolding sentinel_flag_entry by force
qed

text \<open>The sentinel is registered by another customer only: the audit row with value 3 leaves
  no trace in the result of customer 1.\<close>

theorem unregistered_sentinel_dropped_witness:
  "filter (\<lambda>r. r_customer_id r = ''CUST_000001'' \<and> r_program_type r = fake_picture)
     no_sentinel_registration = [] \<and>
   status_summary (process_single_customer ''CUST_000001'' unregistered_sentinel_audit
      (quota_conditions 1) no_sentinel_registration) = [(''GROUP_A'', PASS, [(''PROG_001'', PASS)])] \<and>
   overall_status (process_single_customer ''CUST_000001'' unregistered_sentinel_audit
      (quota_conditions 1) no_sentinel_registration) = PASS \<and>
   \<not> fake_picture_detected (process_single_customer ''CUST_000001'' unregistered_sentinel_audit
      (quota_conditions 1) no_sentinel_registration)"
  using unregistered_sentinel_dropped [of no_sentinel_registration "''CUST_000001''"
      unregistered_sentinel_audit "quota_conditions 1"]
  by (simp add: unregistered_sentinel_audit_def no_sentinel_registration_def veto_defs
      eval_defs status_summary_def)


section \<open>The batch run\<close>

text \<open>
  Claim C6, as amended. The batch run produces a result for exactly the customers that
  occur in the audit table, each the result of \<^const>\<open>process_single_customer\<close> on the
  audit rows of that customer. A customer of the audit table with registration rows, none
  of them for a program type of the customer's audit rows, gets the result FAIL with reason
  NO_AUDIT_DATA and no group results. A customer that occurs in the registration table only
  gets no result.
\<close>

theorem batch_covers_audited_customers:
  "fst ` set (process_audit_for_all_customers audit conds regs) = a_customer_id ` set audit \<and>
   (\<forall>c \<in> a_customer_id ` set audit.
      map_of (process_audit_for_all_customers audit conds regs) c =
        Some (process_single_customer c (filter (\<lambda>a. a_customer_id a = c) audit) conds regs)) \<and>
   (\<forall>c. c \<notin> a_customer_id ` set audit \<longrightarrow>
      map_of (process_audit_for_all_customers audit conds regs) c = None) \<and>
   (\<forall>c \<in> a_customer_id ` set audit.
      (\<exists>r \<in> set regs. r_customer_id r = c) \<and>
      \<not> (\<exists>a \<in> set audit. \<exists>r \<in> set regs.
          r_customer_id r = c \<and> a_customer_id a = c \<and> a_program_type a = r_program_type r) \<longrightarrow>
      map_of (process_audit_for_all_customers audit conds regs) c =
        Some \<lparr>cr_customer_id = c, overall_status = FAIL, cr_reason = ''NO_AUDIT_DATA'',
              group_results = []\<rparr>)"
proof (intro conjI ballI allI impI)
  show keys: "fst ` set (process_audit_for_all_customers audit conds regs) = a_customer_id ` set audit"
    by (simp add: process_audit_for_all_customers_eq image_comp comp_def)
  show entry: "map_of (process_audit_for_all_customers audit conds regs) c =
        Some (process_single_customer c (filter (\<lambda>a. a_customer_id a = c) audit) conds regs)"
    if "c \<in> a_customer_id ` set audit" for c
    using that by (simp add: process_audit_for_all_customers_eq map_of_map_restrict)
  show "map_of (process_audit_for_all_customers audit conds regs) c = None"
    if "c \<notin> a_customer_id ` set audit" for c
    using that keys by (simp add: map_of_eq_None_iff)
  show "map_of (process_audit_for_all_customers audit conds regs) c =
        Some \<lparr>cr_customer_id = c, overall_status = FAIL, cr_reason = ''NO_AUDIT_DATA'',
              group_results = []\<rparr>"
    if c: "c \<in> a_customer_id ` set audit"
      and h: "(\<exists>r \<in> set regs. r_customer_id r = c) \<and>
        \<not> (\<exists>a \<in> set audit. \<exists>r \<in> set regs.
          r_customer_id r = c \<and> a_customer_id a = c \<and> a_program_type a = r_program_type r)"
    for c
  proof -
    from h have "\<exists>r \<in> set regs. r_customer_id r = c" by simp
    moreover from h have "\<not> (\<exists>a \<in> set (filter (\<lambda>a. a_customer_id a = c) audit). \<exists>r \<in> set regs.
          r_customer_id r = c \<and> a_customer_id a = c \<and> a_program_type a = r_program_type r)"
      by auto
    ultimately have "process_single_customer c (filter (\<lambda>a. a_customer_id a = c) audit) conds regs =
        \<lparr>cr_customer_id = c, overall_status = FAIL, cr_reason = ''NO_AUDIT_DATA'',
              group_results = []\<rparr>"
      by (rule process_single_customer_no_audit_data)
    with entry [OF c] show ?thesis by simp
  qed
qed

text \<open>Customer 2 is audited for a program it did not register; customer 4 is registered and
  not audited.\<close>

theorem batch_covers_audited_customers_witness:
  "map fst (process_audit_for_all_customers batch_audit two_group_conditions batch_registration) =
     [''CUST_000001'', ''CUST_000002''] \<and>
   map_of (process_audit_for_all_customers batch_audit two_group_conditions batch_registration)
     ''CUST_000002'' =
     Some \<lparr>cr_customer_id = ''CUST_000002'', overall_status = FAIL, cr_reason = ''NO_AUDIT_DATA'',
           group_results = []\<rparr> \<and>
   map_of (process_audit_for_all_customers batch_audit two_group_conditions batch_registration)
     ''CUST_000004'' = None"
  using batch_covers_audited_customers [of batch_audit two_group_conditions batch_registration]
  by (simp add: batch_audit_def batch_registration_def sample_defs
      process_audit_for_all_customers_def groupby_customer_def eval_defs)

text \<open>
  Claim C6 as stated fails: customer 4 has a registration and no audit row, and the batch
  run holds no result for it.
\<close>

theorem registered_unaudited_customer_counterexample:
  "filter (\<lambda>r. r_customer_id r = ''CUST_000004'') batch_registration =
     [registration_of ''CUST_000004'' ''PROG_001'' 1] \<and>
   map fst (process_audit_for_all_customers batch_audit two_group_conditions batch_registration) =
     [''CUST_000001'', ''CUST_000002''] \<and>
   map_of (process_audit_for_all_customers batch_audit two_group_conditions batch_registration)
     ''CUST_000004'' = None"
  by (simp add: batch_audit_def batch_registration_def sample_defs
      process_audit_for_all_customers_def groupby_customer_def eval_defs)


end
